theory Spec2Isabelle
  imports Complex_Main "HOL-Library.Code_Target_Nat"
begin

section \<open>The Respond to Webhook node: values, items, host context\<close>

text \<open>
  A shallow embedding of \<^verbatim>\<open>RespondToWebhook.execute\<close>
  (packages/nodes-base/nodes/RespondToWebhook/RespondToWebhook.node.ts).
  JavaScript values are a datatype, thrown errors are the left summand of a sum,
  and the calls \<^verbatim>\<open>sendChunk\<close>, \<^verbatim>\<open>sendResponse\<close> and
  \<^verbatim>\<open>putExecutionToWait\<close> are recorded, in order, in a list of events.
  These three host calls are taken not to throw. Numbers are integers (no property
  below looks inside a number), an object is the list of its keys and values in
  enumeration order, and a Buffer or stream is the object of its own properties.
\<close>

datatype jsval =
    JUndefined
  | JNull
  | JBool bool
  | JNum int
  | JStr string
  | JArr "jsval list"
  | JObj "(string \<times> jsval) list"

text \<open>Truthiness, as \<^verbatim>\<open>if (v)\<close> and \<^verbatim>\<open>v && ...\<close> test it.\<close>

fun truthy :: "jsval \<Rightarrow> bool" where
  "truthy JUndefined = False"
| "truthy JNull = False"
| "truthy (JBool b) = b"
| "truthy (JNum n) = (n \<noteq> 0)"
| "truthy (JStr s) = (s \<noteq> [])"
| "truthy (JArr _) = True"
| "truthy (JObj _) = True"

text \<open>\<^verbatim>\<open>typeof v === 'object'\<close> (true of null, arrays and objects).\<close>

fun typeof_object :: "jsval \<Rightarrow> bool" where
  "typeof_object JNull = True"
| "typeof_object (JArr _) = True"
| "typeof_object (JObj _) = True"
| "typeof_object _ = False"

fun isArray :: "jsval \<Rightarrow> bool" where
  "isArray (JArr _) = True"
| "isArray _ = False"

text \<open>\<^verbatim>\<open>a ?? b\<close>: the right operand only when the left is null or undefined.\<close>

fun nullish :: "jsval \<Rightarrow> bool" where
  "nullish JUndefined = True"
| "nullish JNull = True"
| "nullish _ = False"

definition coalesce :: "jsval \<Rightarrow> jsval \<Rightarrow> jsval" where
  "coalesce a b = (if nullish a then b else a)"

datatype error =
    NodeOperationError string
  | TypeError string
  | Error string

fun message :: "error \<Rightarrow> string" where
  "message (NodeOperationError m) = m"
| "message (TypeError m) = m"
| "message (Error m) = m"

text \<open>
  Property access \<^verbatim>\<open>v.k\<close>: a TypeError on undefined and null, the stored
  value on an object that has the key, undefined otherwise.
\<close>

definition cannot_read :: "string \<Rightarrow> string \<Rightarrow> error" where
  "cannot_read what k =
     TypeError (''Cannot read properties of '' @ what @ '' (reading '' @ [CHR 0x27] @ k
                  @ [CHR 0x27] @ '')'')"

fun get_prop :: "jsval \<Rightarrow> string \<Rightarrow> error + jsval" where
  "get_prop JUndefined k = Inl (cannot_read ''undefined'' k)"
| "get_prop JNull k = Inl (cannot_read ''null'' k)"
| "get_prop (JObj kvs) k = Inr (case map_of kvs k of None \<Rightarrow> JUndefined | Some v \<Rightarrow> v)"
| "get_prop _ k = Inr JUndefined"

text \<open>
  Reading a property of a value known to be an object (no error is possible), and
  \<^verbatim>\<open>Object.keys(v).length > 0\<close>.
\<close>

fun obj_prop :: "jsval \<Rightarrow> string \<Rightarrow> jsval" where
  "obj_prop (JObj kvs) k = (case map_of kvs k of None \<Rightarrow> JUndefined | Some v \<Rightarrow> v)"
| "obj_prop _ k = JUndefined"

fun has_keys :: "jsval \<Rightarrow> bool" where
  "has_keys (JObj kvs) = (kvs \<noteq> [])"
| "has_keys (JArr xs) = (xs \<noteq> [])"
| "has_keys _ = False"

record ibinary =
  mimeType :: string
  data :: string

record item =
  json :: jsval
  binary :: "(string \<times> ibinary) list option"
  pairedItem :: "nat list option"
  sendMessage :: "jsval option"

text \<open>
  A parent node as \<^verbatim>\<open>getParentNodes(name, {includeNodeParameters: true})\<close>
  returns it.
\<close>

record pnode =
  node_type :: string
  disabled :: bool
  parameters :: jsval

text \<open>
  One entry of \<^verbatim>\<open>options.responseHeaders.entries\<close>. A name or value that is
  not a string is held as its \<^verbatim>\<open>toString()\<close> text, \<open>None\<close> is undefined.
\<close>

record header =
  hname :: "string option"
  hvalue :: "string option"

text \<open>
  The option \<^verbatim>\<open>responseHeaders\<close>, an object when it is set: its
  \<^verbatim>\<open>entries\<close> are undefined (\<open>None\<close>) when no header was added to it.
\<close>

record rheaders =
  entries :: "header list option"

record opts =
  responseCode :: "int option"
  responseHeaders :: "rheaders option"
  responseKey :: "string option"
  enableStreaming :: "bool option"

record jwtAuth =
  keyType :: string
  secret :: string
  privateKey :: string
  algorithm :: string

record response =
  body :: jsval
  headers :: "(string \<times> jsval) list"
  statusCode :: int

text \<open>
  Modelled from the spec: the constant \<^verbatim>\<open>WAIT_INDEFINITELY\<close> of n8n-workflow,
  the date passed to \<^verbatim>\<open>putExecutionToWait\<close>, is not in the source file; the
  spec calls it the indefinite marker. Any other date is \<open>WaitUntil\<close> of its time in
  milliseconds.
\<close>

datatype waitTill = WAIT_INDEFINITELY | WaitUntil int

datatype event =
    SendChunk string nat jsval
  | SendResponse response
  | PutExecutionToWait waitTill

text \<open>
  The execution context \<^verbatim>\<open>this\<close> (IExecuteFunctions): what the getters
  return for this node, and the helpers the host provides.
\<close>

record ctx =
  typeVersion :: rat
  inputData :: "item list"
  parentNodes :: "pnode list"
  options :: opts
  isStreaming :: bool
  respondWith :: string
  responseBody :: jsval
  payload :: jsval
  redirectURL :: string
  responseDataSource :: string
  inputFieldName :: string
  enableResponseOutput :: bool
  continueOnFail :: bool
  credentials :: "error + jwtAuth"
  assertBinaryData :: "nat \<Rightarrow> string \<Rightarrow> error + ibinary"
  constructExecutionMetaData :: "item list \<Rightarrow> nat list \<Rightarrow> item list"

text \<open>
  The functions \<^verbatim>\<open>execute\<close> imports from other modules (jsonwebtoken, lodash,
  n8n-core, n8n-workflow, ./utils/binary, ../../utils/utilities) and the built-in
  \<^verbatim>\<open>JSON.stringify\<close>. Their code is outside this file; they are parameters of
  the model. \<^verbatim>\<open>stringifyPretty\<close> is \<^verbatim>\<open>JSON.stringify(v, null, 2)\<close>,
  \<open>None\<close> when it throws.
\<close>

record lib =
  jsonParse :: "jsval \<Rightarrow> error + jsval"
  jwtSign :: "jsval \<Rightarrow> string \<Rightarrow> string \<Rightarrow> error + string"
  formatPrivateKey :: "string \<Rightarrow> string"
  lodashSet :: "string \<Rightarrow> jsval \<Rightarrow> jsval"
  isHtmlRenderedContentType :: "string \<Rightarrow> bool"
  sandboxHtmlResponse :: "jsval \<Rightarrow> jsval"
  getBinaryResponse :: "ibinary \<Rightarrow> (string \<times> jsval) list \<Rightarrow> jsval \<times> (string \<times> jsval) list"
  stringify :: "jsval \<Rightarrow> string"
  stringifyPretty :: "jsval \<Rightarrow> string option"
  generatePairedItemData :: "nat \<Rightarrow> nat list"

text \<open>
  Modelled from the spec: the node type constants of n8n-workflow are not in the source
  file; the spec names the four webhook types (webhook, form trigger, chat trigger, wait).
\<close>

definition WEBHOOK_NODE_TYPE :: string where
  "WEBHOOK_NODE_TYPE = ''n8n-nodes-base.webhook''"

definition FORM_TRIGGER_NODE_TYPE :: string where
  "FORM_TRIGGER_NODE_TYPE = ''n8n-nodes-base.formTrigger''"

definition CHAT_TRIGGER_NODE_TYPE :: string where
  "CHAT_TRIGGER_NODE_TYPE = ''@n8n/n8n-nodes-langchain.chatTrigger''"

definition WAIT_NODE_TYPE :: string where
  "WAIT_NODE_TYPE = ''n8n-nodes-base.wait''"

definition WEBHOOK_NODE_TYPES :: "string list" where
  "WEBHOOK_NODE_TYPES =
     [WEBHOOK_NODE_TYPE, FORM_TRIGGER_NODE_TYPE, CHAT_TRIGGER_NODE_TYPE, WAIT_NODE_TYPE]"

section \<open>execute\<close>

text \<open>
  \<^verbatim>\<open>nodeVersion >= 1.5 && this.isStreaming() && options.enableStreaming !== false\<close>
\<close>

definition shouldStream :: "ctx \<Rightarrow> bool" where
  "shouldStream c =
     (typeVersion c \<ge> 1.5 \<and> isStreaming c \<and> enableStreaming (options c) \<noteq> Some False)"

text \<open>The parent check of versions from 1.1 on: the error it throws, if any.\<close>

definition webhook_check :: "ctx \<Rightarrow> error option" where
  "webhook_check c =
     (if typeVersion c \<ge> 1.1 then
        (if \<not> list_ex (\<lambda>n. node_type n \<in> set WEBHOOK_NODE_TYPES) (parentNodes c)
         then Some (NodeOperationError ''No Webhook node found in the workflow'')
         else None)
      else None)"

text \<open>ASCII \<^verbatim>\<open>toLowerCase\<close>.\<close>

definition lower_char :: "char \<Rightarrow> char" where
  "lower_char ch =
     (case map_of (zip ''ABCDEFGHIJKLMNOPQRSTUVWXYZ'' ''abcdefghijklmnopqrstuvwxyz'') ch of
        None \<Rightarrow> ch
      | Some lc \<Rightarrow> lc)"

definition toLowerCase :: "string \<Rightarrow> string" where
  "toLowerCase s = map lower_char s"

text \<open>
  \<^verbatim>\<open>headers[k] = v\<close> on a plain object. A key that is present keeps its place.
  A new key that is an array index (a canonical decimal numeral below \<open>2^32 - 1\<close>)
  goes among the array indices in ascending order, which come first; any other new key
  goes to the end. Assigning a string or undefined to \<^verbatim>\<open>__proto__\<close> reaches the
  setter of \<^verbatim>\<open>Object.prototype\<close>, which ignores a value that is not an
  object: no property is written (only strings and undefined are written here).
\<close>

definition digit_val :: "char \<Rightarrow> nat option" where
  "digit_val ch =
     map_of (zip ''0123456789'' [0, 1, 2, 3, 4, 5, 6, 7, 8, 9]) ch"

definition nat_of_digits :: "string \<Rightarrow> nat" where
  "nat_of_digits s =
     foldl (\<lambda>a ch. 10 * a + (case digit_val ch of None \<Rightarrow> 0 | Some d \<Rightarrow> d)) 0 s"

definition array_index :: "string \<Rightarrow> nat option" where
  "array_index k =
     (if k \<noteq> [] \<and> list_all (\<lambda>ch. digit_val ch \<noteq> None) k
         \<and> (k = ''0'' \<or> hd k \<noteq> CHR ''0'') \<and> nat_of_digits k < 4294967295
      then Some (nat_of_digits k) else None)"

fun replace_key :: "string \<Rightarrow> jsval \<Rightarrow> (string \<times> jsval) list \<Rightarrow> (string \<times> jsval) list" where
  "replace_key k v [] = []"
| "replace_key k v ((k', v') # hs) =
     (if k' = k then (k, v) # hs else (k', v') # replace_key k v hs)"

fun insert_key :: "string \<Rightarrow> jsval \<Rightarrow> (string \<times> jsval) list \<Rightarrow> (string \<times> jsval) list" where
  "insert_key k v [] = [(k, v)]"
| "insert_key k v ((k', v') # hs) =
     (case array_index k of
        None \<Rightarrow> (k', v') # insert_key k v hs
      | Some n \<Rightarrow>
          (case array_index k' of
             None \<Rightarrow> (k, v) # (k', v') # hs
           | Some n' \<Rightarrow>
               if n < n' then (k, v) # (k', v') # hs else (k', v') # insert_key k v hs))"

definition set_header :: "string \<Rightarrow> jsval \<Rightarrow> (string \<times> jsval) list \<Rightarrow> (string \<times> jsval) list" where
  "set_header k v hs =
     (if k = ''__proto__'' then hs
      else (case map_of hs k of
              None \<Rightarrow> insert_key k v hs
            | Some _ \<Rightarrow> replace_key k v hs))"

definition get_header :: "(string \<times> jsval) list \<Rightarrow> string \<Rightarrow> jsval" where
  "get_header hs k = (case map_of hs k of None \<Rightarrow> JUndefined | Some v \<Rightarrow> v)"

text \<open>
  \<^verbatim>\<open>header.name?.toLowerCase()\<close> used as a property key (undefined becomes the
  key "undefined"), and \<^verbatim>\<open>header.value?.toString()\<close>.
\<close>

definition header_key :: "header \<Rightarrow> string" where
  "header_key h = (case hname h of None \<Rightarrow> ''undefined'' | Some n \<Rightarrow> toLowerCase n)"

definition header_val :: "header \<Rightarrow> jsval" where
  "header_val h = (case hvalue h of None \<Rightarrow> JUndefined | Some v \<Rightarrow> JStr v)"

text \<open>
  Lines 395 to 403. When \<^verbatim>\<open>options.responseHeaders\<close> is set but has no
  \<^verbatim>\<open>entries\<close> (the declared default of the option is \<^verbatim>\<open>{}\<close>), the
  \<^verbatim>\<open>for ... of\<close> over undefined throws a TypeError.
\<close>

definition not_iterable :: error where
  "not_iterable = TypeError ''options.responseHeaders.entries is not iterable''"

definition build_headers :: "ctx \<Rightarrow> error + (string \<times> jsval) list" where
  "build_headers c =
     (case responseHeaders (options c) of
        None \<Rightarrow> Inr []
      | Some rh \<Rightarrow>
          (case entries rh of
             None \<Rightarrow> Inl not_iterable
           | Some es \<Rightarrow>
               Inr (fold (\<lambda>h acc. set_header (header_key h) (header_val h) acc) es [])))"

text \<open>
  \<^verbatim>\<open>headers['content-type'] && isHtmlRenderedContentType(headers['content-type'])\<close>,
  as the conditions read it.
\<close>

definition hasHtmlContentType :: "lib \<Rightarrow> (string \<times> jsval) list \<Rightarrow> bool" where
  "hasHtmlContentType l hs =
     (case get_header hs ''content-type'' of
        JStr s \<Rightarrow> s \<noteq> [] \<and> isHtmlRenderedContentType l s
      | _ \<Rightarrow> False)"

text \<open>One begin/item/end triplet of \<^verbatim>\<open>sendChunk\<close> calls.\<close>

definition chunks :: "nat \<Rightarrow> jsval \<Rightarrow> event list" where
  "chunks i v = [SendChunk ''begin'' i JUndefined, SendChunk ''item'' i v, SendChunk ''end'' i JUndefined]"

definition stream_chunks :: "ctx \<Rightarrow> jsval \<Rightarrow> event list" where
  "stream_chunks c v = (if shouldStream c then chunks 0 v else [])"

text \<open>\<^verbatim>\<open>options.responseKey ? set({}, options.responseKey, v) : v\<close>\<close>

definition put_in_field :: "lib \<Rightarrow> ctx \<Rightarrow> jsval \<Rightarrow> jsval" where
  "put_in_field l c v =
     (case responseKey (options c) of
        None \<Rightarrow> v
      | Some k \<Rightarrow> if k \<noteq> [] then lodashSet l k v else v)"

type_synonym built = "jsval \<times> (string \<times> jsval) list \<times> int"

text \<open>
  The dispatch on \<^verbatim>\<open>respondWith\<close> (lines 408 to 531): the response body, the
  headers and the status code it leaves, or the error it throws, with the chunks sent.
\<close>

definition invalid_json_message :: string where
  "invalid_json_message =
     ''Invalid JSON in '' @ [CHR 0x27] @ ''Response Body'' @ [CHR 0x27] @ '' field''"

definition respond_json :: "lib \<Rightarrow> ctx \<Rightarrow> (string \<times> jsval) list \<Rightarrow> int \<Rightarrow> (error + built) \<times> event list" where
  "respond_json l c hs sc =
     (let p = responseBody c in
      case (if truthy p then
              (if typeof_object p then Inr p
               else (case jsonParse l p of
                       Inl e \<Rightarrow> Inl (NodeOperationError invalid_json_message)
                     | Inr v \<Rightarrow> Inr v))
            else Inr JUndefined) of
        Inl e \<Rightarrow> (Inl e, [])
      | Inr b \<Rightarrow> (Inr (b, hs, sc), stream_chunks c b))"

definition respond_jwt :: "lib \<Rightarrow> ctx \<Rightarrow> (string \<times> jsval) list \<Rightarrow> int \<Rightarrow> (error + built) \<times> event list" where
  "respond_jwt l c hs sc =
     (case credentials c of
        Inl e \<Rightarrow> (Inl (NodeOperationError ''Error signing JWT token''), [])
      | Inr cr \<Rightarrow>
          (let secretOrPrivateKey =
                 (if keyType cr = ''passphrase'' then secret cr
                  else formatPrivateKey l (privateKey cr))
           in case jwtSign l (payload c) secretOrPrivateKey (algorithm cr) of
                Inl e \<Rightarrow> (Inl (NodeOperationError ''Error signing JWT token''), [])
              | Inr token \<Rightarrow>
                  (let b = JObj [(''token'', JStr token)]
                   in (Inr (b, hs, sc), stream_chunks c b))))"

definition respond_allIncomingItems :: "lib \<Rightarrow> ctx \<Rightarrow> (string \<times> jsval) list \<Rightarrow> int \<Rightarrow> (error + built) \<times> event list" where
  "respond_allIncomingItems l c hs sc =
     (let items = inputData c;
          respondItems = JArr (map json items)
      in (Inr (put_in_field l c respondItems, hs, sc),
          concat (map (\<lambda>(index, it). chunks index (json it)) (enumerate 0 items))))"

definition respond_firstIncomingItem :: "lib \<Rightarrow> ctx \<Rightarrow> (string \<times> jsval) list \<Rightarrow> int \<Rightarrow> (error + built) \<times> event list" where
  "respond_firstIncomingItem l c hs sc =
     (case inputData c of
        [] \<Rightarrow> (Inl (cannot_read ''undefined'' ''json''), [])
      | it # _ \<Rightarrow> (Inr (put_in_field l c (json it), hs, sc), stream_chunks c (json it)))"

definition respond_text :: "lib \<Rightarrow> ctx \<Rightarrow> (string \<times> jsval) list \<Rightarrow> int \<Rightarrow> (error + built) \<times> event list" where
  "respond_text l c hs sc =
     (let rawBody = responseBody c;
          b = (if hasHtmlContentType l hs \<or> \<not> truthy (get_header hs ''content-type'')
               then sandboxHtmlResponse l rawBody
               else rawBody)
      in (Inr (b, hs, sc), stream_chunks c rawBody))"

definition respond_binary :: "lib \<Rightarrow> ctx \<Rightarrow> (string \<times> jsval) list \<Rightarrow> int \<Rightarrow> (error + built) \<times> event list" where
  "respond_binary l c hs sc =
     (case inputData c of
        [] \<Rightarrow> (Inl (cannot_read ''undefined'' ''binary''), [])
      | it # _ \<Rightarrow>
          (case binary it of
             None \<Rightarrow> (Inl (NodeOperationError ''No binary data exists on the first item!''), [])
           | Some bin \<Rightarrow>
               (case (if responseDataSource c = ''set'' then Inr (inputFieldName c)
                      else (case map fst bin of
                              [] \<Rightarrow> Inl (NodeOperationError ''No binary data exists on the first item!'')
                            | k # _ \<Rightarrow> Inr k)) of
                  Inl e \<Rightarrow> (Inl e, [])
                | Inr responseBinaryPropertyName \<Rightarrow>
                    (case assertBinaryData c 0 responseBinaryPropertyName of
                       Inl e \<Rightarrow> (Inl e, [])
                     | Inr binaryData \<Rightarrow>
                         (case getBinaryResponse l binaryData hs of
                            (b, hs') \<Rightarrow> (Inr (b, hs', sc), []))))))"

definition respond_redirect :: "lib \<Rightarrow> ctx \<Rightarrow> (string \<times> jsval) list \<Rightarrow> int \<Rightarrow> (error + built) \<times> event list" where
  "respond_redirect l c hs sc =
     (Inr (JUndefined,
           set_header ''location'' (JStr (redirectURL c)) hs,
           (case responseCode (options c) of None \<Rightarrow> 307 | Some n \<Rightarrow> n)),
      [])"

definition dispatch :: "lib \<Rightarrow> ctx \<Rightarrow> (string \<times> jsval) list \<Rightarrow> (error + built) \<times> event list" where
  "dispatch l c hs =
     (let sc = (case responseCode (options c) of
                  None \<Rightarrow> 200
                | Some n \<Rightarrow> if n \<noteq> 0 then n else 200);
          rw = respondWith c
      in if rw = ''json'' then respond_json l c hs sc
         else if rw = ''jwt'' then respond_jwt l c hs sc
         else if rw = ''allIncomingItems'' then respond_allIncomingItems l c hs sc
         else if rw = ''firstIncomingItem'' then respond_firstIncomingItem l c hs sc
         else if rw = ''text'' then respond_text l c hs sc
         else if rw = ''binary'' then respond_binary l c hs sc
         else if rw = ''redirect'' then respond_redirect l c hs sc
         else if rw \<noteq> ''noData'' then
           (Inl (NodeOperationError
                   (''The Response Data option '' @ [CHR 0x22] @ rw @ [CHR 0x22]
                      @ '' is not supported!'')), [])
         else (Inr (JUndefined, hs, sc), []))"

text \<open>
  Lines 393 to 531: the header loop, which may throw, then the dispatch on the headers
  it leaves.
\<close>

definition build :: "lib \<Rightarrow> ctx \<Rightarrow> (error + built) \<times> event list" where
  "build l c =
     (case build_headers c of
        Inl e \<Rightarrow> (Inl e, [])
      | Inr hs \<Rightarrow> dispatch l c hs)"

text \<open>
  The constant \<^verbatim>\<open>hasHtmlContentType\<close> of line 405, computed from the headers
  of the loop before any branch changes them.
\<close>

definition hasHtml :: "lib \<Rightarrow> ctx \<Rightarrow> bool" where
  "hasHtml l c =
     (case build_headers c of
        Inl e \<Rightarrow> False
      | Inr hs \<Rightarrow> hasHtmlContentType l hs)"

text \<open>
  The chat trigger the node looks for (line 533): the first enabled parent of the chat
  trigger type.
\<close>

definition chatTrigger :: "ctx \<Rightarrow> pnode option" where
  "chatTrigger c =
     find (\<lambda>node. node_type node = CHAT_TRIGGER_NODE_TYPE \<and> \<not> disabled node) (parentNodes c)"

text \<open>
  \<^verbatim>\<open>chatTrigger && !chatTrigger.disabled && parameters.options.responseMode === 'responseNodes'\<close>:
  its truth value, or the TypeError of reading through a missing \<^verbatim>\<open>options\<close>.
\<close>

definition chat_deferred :: "ctx \<Rightarrow> error + bool" where
  "chat_deferred c =
     (case chatTrigger c of
        None \<Rightarrow> Inr False
      | Some ct \<Rightarrow>
          if \<not> disabled ct then
            (case get_prop (parameters ct) ''options'' of
               Inl e \<Rightarrow> Inl e
             | Inr os \<Rightarrow>
                 (case get_prop os ''responseMode'' of
                    Inl e \<Rightarrow> Inl e
                  | Inr m \<Rightarrow> Inr (m = JStr ''responseNodes'')))
          else Inr False)"

text \<open>The message handed to the chat service (lines 548 to 561).\<close>

definition chat_message :: "lib \<Rightarrow> jsval \<Rightarrow> jsval" where
  "chat_message l b =
     (if truthy b \<and> typeof_object b \<and> \<not> isArray b then
        (let m = coalesce
                   (coalesce (coalesce (obj_prop b ''output'') (obj_prop b ''text''))
                      (obj_prop b ''message''))
                   (JStr [])
         in if m = JStr [] \<and> has_keys b then
              (case stringifyPretty l b of None \<Rightarrow> m | Some s \<Rightarrow> JStr s)
            else m)
      else JStr [])"

datatype result = Deferred jsval | Responded response

text \<open>
  Lines 567 to 584: the second sanitizing step, the response object, and the call of
  \<^verbatim>\<open>sendResponse\<close> under \<^verbatim>\<open>!shouldStream || respondWith === 'binary'\<close>.
\<close>

definition deliver :: "lib \<Rightarrow> ctx \<Rightarrow> built \<Rightarrow> response \<times> event list" where
  "deliver l c bt =
     (case bt of
        (b, hs, sc) \<Rightarrow>
          (let rw = respondWith c;
               b' = (if hasHtml l c \<and> rw \<noteq> ''text''
                        \<and> rw \<noteq> ''binary'' \<and> truthy b
                     then sandboxHtmlResponse l (JStr (stringify l b))
                     else b);
               resp = \<lparr>body = b', headers = hs, statusCode = sc\<rparr>
           in (resp, if \<not> shouldStream c \<or> rw = ''binary'' then [SendResponse resp] else [])))"

text \<open>
  Lines 393 to 584, what follows the parent check: the dispatch, then the chat trigger
  test, then either the suspension with the chat message or the delivery.
\<close>

definition respond :: "lib \<Rightarrow> ctx \<Rightarrow> (error + result) \<times> event list" where
  "respond l c =
     (case build l c of
        (Inl e, tr) \<Rightarrow> (Inl e, tr)
      | (Inr bt, tr) \<Rightarrow>
          (case chat_deferred c of
             Inl e \<Rightarrow> (Inl e, tr)
           | Inr d \<Rightarrow>
               if d then (Inr (Deferred (chat_message l (fst bt))), tr @ [PutExecutionToWait WAIT_INDEFINITELY])
               else (case deliver l c bt of (resp, sent) \<Rightarrow> (Inr (Responded resp), tr @ sent))))"

text \<open>The body of the \<^verbatim>\<open>try\<close> block (lines 380 to 584).\<close>

definition execute_try :: "lib \<Rightarrow> ctx \<Rightarrow> (error + result) \<times> event list" where
  "execute_try l c =
     (case webhook_check c of
        Some e \<Rightarrow> (Inl e, [])
      | None \<Rightarrow> respond l c)"

definition error_item :: "error \<Rightarrow> item" where
  "error_item e =
     \<lparr>json = JObj [(''error'', JStr (message e))], binary = None, pairedItem = None,
      sendMessage = None\<rparr>"

definition message_item :: "jsval \<Rightarrow> item" where
  "message_item m = \<lparr>json = JObj [], binary = None, pairedItem = None, sendMessage = Some m\<rparr>"

definition response_item :: "response \<Rightarrow> item" where
  "response_item r =
     \<lparr>json = JObj [(''response'',
               JObj [(''body'', body r), (''headers'', JObj (headers r)),
                     (''statusCode'', JNum (statusCode r))])],
      binary = None, pairedItem = None, sendMessage = None\<rparr>"

text \<open>
  \<^verbatim>\<open>execute\<close>: the output branches it returns (\<open>Inr\<close>) or the error it throws to
  the host (\<open>Inl\<close>), and the host calls it made.
\<close>

definition execute :: "lib \<Rightarrow> ctx \<Rightarrow> (error + item list list) \<times> event list" where
  "execute l c =
     (let items = inputData c; nodeVersion = typeVersion c in
      case execute_try l c of
        (Inl e, tr) \<Rightarrow>
          if continueOnFail c then
            (let itemData = generatePairedItemData l (length items);
                 returnData = constructExecutionMetaData c [error_item e] itemData
             in (Inr [returnData], tr))
          else (Inl e, tr)
      | (Inr (Deferred m), tr) \<Rightarrow> (Inr [[message_item m]], tr)
      | (Inr (Responded r), tr) \<Rightarrow>
          if nodeVersion = 1.3 then (Inr [items, [response_item r]], tr)
          else if nodeVersion \<ge> 1.4 \<and> enableResponseOutput c
          then (Inr [items, [response_item r]], tr)
          else (Inr [items], tr))"

section \<open>A concrete host and concrete workflows\<close>

text \<open>
  Stand-ins for the imported functions, enough to run \<open>execute\<close> on concrete inputs:
  a parser that knows the texts \<^verbatim>\<open>{}\<close> and \<^verbatim>\<open>[]\<close> and rejects all
  others, a signer that always succeeds, a lodash \<^verbatim>\<open>set\<close> for a one-segment
  path, the content-type test on the prefixes \<^verbatim>\<open>text/html\<close> and
  \<^verbatim>\<open>application/xhtml+xml\<close>, and a sandbox that wraps a string in an iframe.
\<close>

definition std_lib :: lib where
  "std_lib =
     \<lparr>jsonParse = (\<lambda>v. if v = JStr ''{}'' then Inr (JObj [])
                       else if v = JStr ''[]'' then Inr (JArr [])
                       else Inl (Error ''Unexpected token in JSON'')),
      jwtSign = (\<lambda>p k a. Inr (''signed.'' @ a)),
      formatPrivateKey = (\<lambda>k. k),
      lodashSet = (\<lambda>k v. JObj [(k, v)]),
      isHtmlRenderedContentType =
        (\<lambda>s. take 9 (toLowerCase s) = ''text/html''
               \<or> take 21 (toLowerCase s) = ''application/xhtml+xml''),
      sandboxHtmlResponse =
        (\<lambda>v. case v of JStr s \<Rightarrow> JStr (''<iframe srcdoc='' @ s @ ''></iframe>'') | _ \<Rightarrow> v),
      getBinaryResponse =
        (\<lambda>b hs. (JObj [(''data'', JStr (data b))],
                  set_header ''content-type'' (JStr (mimeType b)) hs)),
      stringify = (\<lambda>v. ''<json>''),
      stringifyPretty = (\<lambda>v. Some ''<pretty json>''),
      generatePairedItemData = (\<lambda>n. [0..<n])\<rparr>"

text \<open>
  The two host helpers as the workflow engine provides them:
  \<^verbatim>\<open>constructExecutionMetaData\<close> attaches the paired-item data to each record it
  is given, and \<^verbatim>\<open>assertBinaryData\<close> returns the named binary field of the
  item; it throws one error when the item has no binary data at all and another when
  its binary data has no field of that name.
\<close>

definition host_constructExecutionMetaData :: "item list \<Rightarrow> nat list \<Rightarrow> item list" where
  "host_constructExecutionMetaData inputData' itemData =
     map (\<lambda>d. d\<lparr>pairedItem := Some itemData\<rparr>) inputData'"

text \<open>Decimal text of a number, as a template literal renders it.\<close>

function string_of_nat :: "nat \<Rightarrow> string" where
  "string_of_nat n =
     (if n < 10 then [''0123456789'' ! n]
      else string_of_nat (n div 10) @ [''0123456789'' ! (n mod 10)])"
  by pat_completeness auto
termination
  by (relation "measure id") auto

declare string_of_nat.simps [simp del]

definition no_binary_file :: "string \<Rightarrow> nat \<Rightarrow> error" where
  "no_binary_file k i =
     NodeOperationError
       (''This operation expects the node'' @ [CHR 0x27]
          @ ''s input data to contain a binary file '' @ [CHR 0x27] @ k @ [CHR 0x27]
          @ '', but none was found [item '' @ string_of_nat i @ '']'')"

definition no_binary_field :: "string \<Rightarrow> nat \<Rightarrow> error" where
  "no_binary_field k i =
     NodeOperationError
       (''The item has no binary field '' @ [CHR 0x27] @ k @ [CHR 0x27] @ '' [item ''
          @ string_of_nat i @ '']'')"

definition host_assertBinaryData :: "item list \<Rightarrow> nat \<Rightarrow> string \<Rightarrow> error + ibinary" where
  "host_assertBinaryData items i k =
     (case (if i < length items then binary (items ! i) else None) of
        None \<Rightarrow> Inl (no_binary_file k i)
      | Some bin \<Rightarrow>
          (case map_of bin k of
             None \<Rightarrow> Inl (no_binary_field k i)
           | Some b \<Rightarrow> Inr b))"

definition mk_item :: "jsval \<Rightarrow> item" where
  "mk_item j = \<lparr>json = j, binary = None, pairedItem = None, sendMessage = None\<rparr>"

definition webhook_node :: pnode where
  "webhook_node = \<lparr>node_type = WEBHOOK_NODE_TYPE, disabled = False, parameters = JObj []\<rparr>"

definition chat_node :: "jsval \<Rightarrow> pnode" where
  "chat_node ps = \<lparr>node_type = CHAT_TRIGGER_NODE_TYPE, disabled = False, parameters = ps\<rparr>"

definition no_opts :: opts where
  "no_opts = \<lparr>responseCode = None, responseHeaders = None, responseKey = None,
              enableStreaming = None\<rparr>"

text \<open>
  A workflow context: node version, streaming flag of the host, mode, parents and input
  items; every other parameter at its default.
\<close>

definition mk_ctx :: "rat \<Rightarrow> bool \<Rightarrow> string \<Rightarrow> pnode list \<Rightarrow> item list \<Rightarrow> ctx" where
  "mk_ctx v streaming mode parents items =
     \<lparr>typeVersion = v, inputData = items, parentNodes = parents, options = no_opts,
      isStreaming = streaming, respondWith = mode, responseBody = JStr [],
      payload = JObj [], redirectURL = ''http://x'', responseDataSource = ''automatically'',
      inputFieldName = ''data'', enableResponseOutput = False, continueOnFail = False,
      credentials = Inr \<lparr>keyType = ''passphrase'', secret = ''s'', privateKey = [],
                          algorithm = ''HS256''\<rparr>,
      assertBinaryData = host_assertBinaryData items,
      constructExecutionMetaData = host_constructExecutionMetaData\<rparr>"

definition chat_options :: "string \<Rightarrow> jsval" where
  "chat_options mode = JObj [(''options'', JObj [(''responseMode'', JStr mode)])]"

text \<open>Version 1.5 on a streaming host, mode redirect, one webhook parent, one item.\<close>

definition streaming_redirect_ctx :: ctx where
  "streaming_redirect_ctx = mk_ctx 1.5 True ''redirect'' [webhook_node] [mk_item (JObj [])]"

text \<open>Version 1 on a host that does not stream, mode allIncomingItems, one item.\<close>

definition plain_all_items_ctx :: ctx where
  "plain_all_items_ctx =
     mk_ctx 1 False ''allIncomingItems'' [webhook_node] [mk_item (JObj [(''a'', JNum 1)])]"

text \<open>Mode json with the invalid body \<^verbatim>\<open>{\<close>, continue-on-fail, two input items.\<close>

definition invalid_json_ctx :: ctx where
  "invalid_json_ctx =
     (mk_ctx 1.5 False ''json'' [webhook_node] [mk_item (JObj []), mk_item (JObj [])])
       \<lparr>responseBody := JStr ''{'', continueOnFail := True\<rparr>"

text \<open>
  Two enabled chat triggers upstream: the first answers with the last node, the second
  is configured for response nodes.
\<close>

definition two_chats_ctx :: ctx where
  "two_chats_ctx =
     mk_ctx 1.5 False ''noData''
       [chat_node (chat_options ''lastNode''), chat_node (chat_options ''responseNodes'')]
       [mk_item (JObj [])]"

text \<open>One chat trigger configured for response nodes; the first item has a text field.\<close>

definition chat_first_item_ctx :: ctx where
  "chat_first_item_ctx =
     mk_ctx 1.5 False ''firstIncomingItem'' [chat_node (chat_options ''responseNodes'')]
       [mk_item (JObj [(''text'', JStr ''hi'')])]"

definition chat_all_items_ctx :: ctx where
  "chat_all_items_ctx =
     mk_ctx 1.5 False ''allIncomingItems'' [chat_node (chat_options ''responseNodes'')]
       [mk_item (JObj [(''text'', JStr ''hi'')])]"

text \<open>
  Two enabled chat triggers upstream: the first is configured for response nodes, the
  second has no options.
\<close>

definition chat_then_bare_chat_ctx :: ctx where
  "chat_then_bare_chat_ctx =
     mk_ctx 1.5 False ''noData''
       [chat_node (chat_options ''responseNodes''), chat_node (JObj [])]
       [mk_item (JObj [])]"

definition bare_chat_ctx :: ctx where
  "bare_chat_ctx = mk_ctx 1.5 False ''noData'' [chat_node (JObj [])] [mk_item (JObj [])]"

text \<open>
  Mode binary with an explicit field name; the first item has a binary object with no
  field in it.
\<close>

definition empty_binary_set_ctx :: ctx where
  "empty_binary_set_ctx =
     (mk_ctx 1.5 False ''binary'' [webhook_node] [(mk_item (JObj []))\<lparr>binary := Some []\<rparr>])
       \<lparr>responseDataSource := ''set''\<rparr>"

definition no_binary_ctx :: ctx where
  "no_binary_ctx = mk_ctx 1.5 False ''binary'' [webhook_node] [mk_item (JObj [])]"

text \<open>Mode text with a script-bearing body and one configured header.\<close>

definition text_ctx :: "string \<Rightarrow> string \<Rightarrow> ctx" where
  "text_ctx hn hv =
     (mk_ctx 1.5 False ''text'' [webhook_node] [mk_item (JObj [])])
       \<lparr>responseBody := JStr ''<script>'',
        options := no_opts\<lparr>responseHeaders :=
                     Some \<lparr>entries = Some [\<lparr>hname = Some hn, hvalue = Some hv\<rparr>]\<rparr>\<rparr>\<rparr>"

text \<open>Mode text on a streaming host at version 1.5, no response header configured.\<close>

definition streaming_text_ctx :: ctx where
  "streaming_text_ctx =
     (mk_ctx 1.5 True ''text'' [webhook_node] [mk_item (JObj [])])
       \<lparr>responseBody := JStr ''<script>''\<rparr>"

text \<open>Mode binary, automatic data source; the first item has an empty binary object.\<close>

definition empty_binary_auto_ctx :: ctx where
  "empty_binary_auto_ctx =
     mk_ctx 1.5 False ''binary'' [webhook_node] [(mk_item (JObj []))\<lparr>binary := Some []\<rparr>]"

text \<open>Mode firstIncomingItem, no input item, response headers set without entries.\<close>

definition no_entries_ctx :: ctx where
  "no_entries_ctx =
     (mk_ctx 1.5 False ''firstIncomingItem'' [webhook_node] [])
       \<lparr>options := no_opts\<lparr>responseHeaders := Some \<lparr>entries = None\<rparr>\<rparr>\<rparr>"

definition no_parent_ctx :: "rat \<Rightarrow> ctx" where
  "no_parent_ctx v = mk_ctx v False ''noData'' [] [mk_item (JObj [])]"

definition no_items_ctx :: "string \<Rightarrow> ctx" where
  "no_items_ctx mode = mk_ctx 1.5 False mode [webhook_node] []"

section \<open>Notions the properties are stated with\<close>

fun is_chunk :: "event \<Rightarrow> bool" where
  "is_chunk (SendChunk _ _ _) = True"
| "is_chunk _ = False"

fun is_response :: "event \<Rightarrow> bool" where
  "is_response (SendResponse _) = True"
| "is_response _ = False"

text \<open>
  The content type the response headers configure: the value of the last entry whose
  name, in lower case, is content-type; \<open>None\<close> when there is no such entry or its value
  is undefined.
\<close>

definition header_entries :: "ctx \<Rightarrow> header list" where
  "header_entries c =
     (case responseHeaders (options c) of
        None \<Rightarrow> []
      | Some rh \<Rightarrow> (case entries rh of None \<Rightarrow> [] | Some es \<Rightarrow> es))"

definition configured_content_type :: "ctx \<Rightarrow> string option" where
  "configured_content_type c =
     (case find (\<lambda>h. header_key h = ''content-type'') (rev (header_entries c)) of
        None \<Rightarrow> None
      | Some h \<Rightarrow> hvalue h)"

text \<open>
  The response headers option is unset, or it has its list of entries: the header loop
  does not throw.
\<close>

definition entries_present :: "ctx \<Rightarrow> bool" where
  "entries_present c =
     (case responseHeaders (options c) of
        None \<Rightarrow> True
      | Some rh \<Rightarrow> entries rh \<noteq> None)"

text \<open>
  The first of the fields output, text and message of an object that is present, that
  is neither undefined nor null.
\<close>

definition extracted_message :: "(string \<times> jsval) list \<Rightarrow> jsval option" where
  "extracted_message kvs =
     (case filter (\<lambda>v. \<not> nullish v)
             (map (obj_prop (JObj kvs)) [''output'', ''text'', ''message'']) of
        [] \<Rightarrow> None
      | v # _ \<Rightarrow> Some v)"

section \<open>Properties\<close>

lemmas node_type_defs = WEBHOOK_NODE_TYPES_def WEBHOOK_NODE_TYPE_def
  FORM_TRIGGER_NODE_TYPE_def CHAT_TRIGGER_NODE_TYPE_def WAIT_NODE_TYPE_def

lemmas mode_defs = respond_json_def respond_jwt_def respond_allIncomingItems_def
  respond_firstIncomingItem_def respond_text_def respond_binary_def respond_redirect_def

lemmas fixture_defs = mk_ctx_def std_lib_def no_opts_def webhook_node_def chat_node_def
  mk_item_def chat_options_def host_constructExecutionMetaData_def host_assertBinaryData_def

lemmas run_defs = execute_def execute_try_def respond_def deliver_def build_def dispatch_def
  hasHtml_def webhook_check_def shouldStream_def build_headers_def chat_deferred_def
  chatTrigger_def stream_chunks_def chunks_def put_in_field_def hasHtmlContentType_def
  get_header_def chat_message_def coalesce_def error_item_def message_item_def
  response_item_def Let_def

lemmas header_defs = header_key_def header_val_def toLowerCase_def lower_char_def
  set_header_def array_index_def digit_val_def

subsection \<open>Helper facts\<close>

lemma build_headers_present:
  "entries_present c \<Longrightarrow>
     build_headers c =
       Inr (fold (\<lambda>h acc. set_header (header_key h) (header_val h) acc) (header_entries c) [])"
  by (auto simp: entries_present_def build_headers_def header_entries_def split: option.splits)

lemma build_headers_absent: "\<not> entries_present c \<Longrightarrow> build_headers c = Inl not_iterable"
  by (auto simp: entries_present_def build_headers_def split: option.splits)

lemma string_of_nat_0: "string_of_nat 0 = ''0''"
  by (subst string_of_nat.simps) simp

lemma filter_chunks_concat:
  "filter is_chunk (concat (map (\<lambda>(i, it). chunks i (f it)) xs)) =
     concat (map (\<lambda>(i, it). chunks i (f it)) xs)"
  by (induction xs) (auto simp: chunks_def)

lemma no_response_in_chunks:
  "filter is_response (concat (map (\<lambda>(i, it). chunks i (f it)) xs)) = []"
  by (induction xs) (auto simp: chunks_def)

lemma no_response_in_stream_chunks: "filter is_response (stream_chunks c v) = []"
  by (simp add: stream_chunks_def chunks_def)

lemma no_response_modes:
  "filter is_response (snd (respond_json l c hs sc)) = []"
  "filter is_response (snd (respond_jwt l c hs sc)) = []"
  "filter is_response (snd (respond_allIncomingItems l c hs sc)) = []"
  "filter is_response (snd (respond_firstIncomingItem l c hs sc)) = []"
  "filter is_response (snd (respond_text l c hs sc)) = []"
  "filter is_response (snd (respond_binary l c hs sc)) = []"
  "filter is_response (snd (respond_redirect l c hs sc)) = []"
  by (simp_all add: mode_defs Let_def no_response_in_chunks no_response_in_stream_chunks
        split: sum.split list.split option.split prod.split)

lemma dispatch_no_response: "filter is_response (snd (dispatch l c hs)) = []"
  by (simp add: dispatch_def Let_def no_response_modes)

lemma build_no_response: "filter is_response (snd (build l c)) = []"
  by (simp add: build_def dispatch_no_response split: sum.split)

lemma chatTrigger_passes_check:
  assumes "chatTrigger c = Some ct" shows "webhook_check c = None"
proof -
  from assms have "ct \<in> set (parentNodes c)" "node_type ct = CHAT_TRIGGER_NODE_TYPE"
    by (auto simp: chatTrigger_def find_Some_iff)
  then have "list_ex (\<lambda>n. node_type n \<in> set WEBHOOK_NODE_TYPES) (parentNodes c)"
    by (auto simp: list_ex_iff WEBHOOK_NODE_TYPES_def)
  then show ?thesis by (simp add: webhook_check_def)
qed

lemma chatTrigger_enabled: "chatTrigger c = Some ct \<Longrightarrow> \<not> disabled ct"
  by (auto simp: chatTrigger_def find_Some_iff)

lemma build_redirect:
  "respondWith c = ''redirect'' \<Longrightarrow> entries_present c \<Longrightarrow>
     snd (build l c) = [] \<and> (\<exists>bt. fst (build l c) = Inr bt)"
  by (simp add: build_def dispatch_def respond_redirect_def Let_def build_headers_present)

lemma build_noData:
  "respondWith c = ''noData'' \<Longrightarrow> entries_present c \<Longrightarrow>
     snd (build l c) = [] \<and> (\<exists>bt. fst (build l c) = Inr bt)"
  by (simp add: build_def dispatch_def Let_def build_headers_present)

lemma chat_message_object:
  "chat_message l (JObj kvs) =
     (case extracted_message kvs of
        None \<Rightarrow> if kvs = [] then JStr []
                else (case stringifyPretty l (JObj kvs) of None \<Rightarrow> JStr [] | Some s \<Rightarrow> JStr s)
      | Some v \<Rightarrow> if v = JStr []
                  then (case stringifyPretty l (JObj kvs) of None \<Rightarrow> JStr [] | Some s \<Rightarrow> JStr s)
                  else v)"
  by (auto simp: chat_message_def extracted_message_def coalesce_def Let_def
           split: option.splits)

subsection \<open>Deliveries\<close>

text \<open>
  C1. The claim: every execution that neither throws nor defers to the chat service
  delivers exactly one response, as a chunk stream or by one call of sendResponse, in
  every mode, redirect and noData included, whatever the version and the streaming
  flags. The code does not: when streaming is on and the mode is redirect or noData, no
  chunk is sent and sendResponse is skipped, yet the execution returns normally. The
  guard before sendResponse exempts binary, the other mode that sends no chunks, and
  misses these two.
\<close>

theorem streaming_redirect_noData_deliver_nothing:
  assumes "shouldStream c"
    and "respondWith c = ''redirect'' \<or> respondWith c = ''noData''"
    and "webhook_check c = None"
    and "chat_deferred c = Inr False"
    and "entries_present c"
  shows "snd (execute l c) = [] \<and> (\<exists>out. fst (execute l c) = Inr out)"
proof -
  from assms(2,5) obtain bt where b: "build l c = (Inr bt, [])"
    using build_redirect[of c l] build_noData[of c l] by (metis prod.collapse)
  from assms(2) have nb: "respondWith c \<noteq> ''binary''" by auto
  obtain b' hs sc where bt: "bt = (b', hs, sc)" by (cases bt) auto
  show ?thesis
    using assms(1,3,4) nb b bt
    by (simp add: execute_def execute_try_def respond_def deliver_def Let_def)
qed

theorem streaming_redirect_noData_deliver_nothing_witness:
  "shouldStream streaming_redirect_ctx \<and>
   execute std_lib streaming_redirect_ctx = (Inr [[mk_item (JObj [])]], [])"
proof -
  have ev: "execute std_lib streaming_redirect_ctx = (Inr [[mk_item (JObj [])]], [])"
    by (simp add: streaming_redirect_ctx_def run_defs mode_defs fixture_defs node_type_defs)
  have h1: "shouldStream streaming_redirect_ctx"
    by (simp add: streaming_redirect_ctx_def shouldStream_def mk_ctx_def no_opts_def)
  have h2: "respondWith streaming_redirect_ctx = ''redirect''
            \<or> respondWith streaming_redirect_ctx = ''noData''"
    by (simp add: streaming_redirect_ctx_def mk_ctx_def)
  have h3: "webhook_check streaming_redirect_ctx = None"
    by (simp add: streaming_redirect_ctx_def mk_ctx_def webhook_check_def webhook_node_def
          node_type_defs)
  have h4: "chat_deferred streaming_redirect_ctx = Inr False"
    by (simp add: streaming_redirect_ctx_def mk_ctx_def chat_deferred_def chatTrigger_def
          webhook_node_def node_type_defs)
  have h5: "entries_present streaming_redirect_ctx"
    by (simp add: streaming_redirect_ctx_def mk_ctx_def entries_present_def no_opts_def)
  from streaming_redirect_noData_deliver_nothing[OF h1 h2 h3 h4 h5, of std_lib] ev h1
  show ?thesis by simp
qed

text \<open>
  C2. The claim: sendChunk is called only when streaming is enabled, so mode
  allIncomingItems with streaming disabled emits no begin/item/end chunks. The code
  does not: the allIncomingItems branch sends the triplet of every item without testing
  shouldStream (the json, jwt, firstIncomingItem and text branches test it), and when
  streaming is off it calls sendResponse as well.
\<close>

theorem allIncomingItems_chunks_unguarded:
  assumes "respondWith c = ''allIncomingItems''" and "webhook_check c = None"
    and "entries_present c"
  shows "filter is_chunk (snd (execute l c)) =
           concat (map (\<lambda>(i, it). chunks i (json it)) (enumerate 0 (inputData c)))
         \<and> (\<not> shouldStream c \<and> chat_deferred c = Inr False
              \<longrightarrow> length (filter is_response (snd (execute l c))) = 1)"
proof -
  let ?tr = "concat (map (\<lambda>(i, it). chunks i (json it)) (enumerate 0 (inputData c)))"
  obtain bt where b: "build l c = (Inr bt, ?tr)"
    using assms(1,3)
    by (simp add: build_def dispatch_def respond_allIncomingItems_def Let_def
          build_headers_present)
  obtain b' hs sc where bt: "bt = (b', hs, sc)" by (cases bt) auto
  have 1: "filter is_chunk (snd (execute l c)) = ?tr"
    using assms(2) b bt filter_chunks_concat[of json "enumerate 0 (inputData c)"]
    by (auto simp: execute_def execute_try_def respond_def deliver_def Let_def
             split: sum.splits prod.splits result.splits)
  have 2: "\<not> shouldStream c \<and> chat_deferred c = Inr False
              \<longrightarrow> length (filter is_response (snd (execute l c))) = 1"
    using assms(2) b bt no_response_in_chunks[of json "enumerate 0 (inputData c)"]
    by (auto simp: execute_def execute_try_def respond_def deliver_def Let_def
             split: sum.splits prod.splits result.splits)
  from 1 2 show ?thesis by blast
qed

theorem allIncomingItems_chunks_unguarded_witness:
  "\<not> shouldStream plain_all_items_ctx \<and>
   snd (execute std_lib plain_all_items_ctx) =
     [SendChunk ''begin'' 0 JUndefined, SendChunk ''item'' 0 (JObj [(''a'', JNum 1)]),
      SendChunk ''end'' 0 JUndefined,
      SendResponse \<lparr>body = JArr [JObj [(''a'', JNum 1)]], headers = [], statusCode = 200\<rparr>]"
proof -
  have ev: "\<not> shouldStream plain_all_items_ctx \<and>
   snd (execute std_lib plain_all_items_ctx) =
     [SendChunk ''begin'' 0 JUndefined, SendChunk ''item'' 0 (JObj [(''a'', JNum 1)]),
      SendChunk ''end'' 0 JUndefined,
      SendResponse \<lparr>body = JArr [JObj [(''a'', JNum 1)]], headers = [], statusCode = 200\<rparr>]"
    by (simp add: plain_all_items_ctx_def run_defs mode_defs fixture_defs node_type_defs)
  have h1: "respondWith plain_all_items_ctx = ''allIncomingItems''"
    by (simp add: plain_all_items_ctx_def mk_ctx_def)
  have h2: "webhook_check plain_all_items_ctx = None"
    by (simp add: plain_all_items_ctx_def mk_ctx_def webhook_check_def webhook_node_def
          node_type_defs)
  have h3: "entries_present plain_all_items_ctx"
    by (simp add: plain_all_items_ctx_def mk_ctx_def entries_present_def no_opts_def)
  from allIncomingItems_chunks_unguarded[OF h1 h2 h3, of std_lib] ev show ?thesis by blast
qed

subsection \<open>Failure policy\<close>

text \<open>
  C3. The claim: under continue-on-fail, an error thrown for n input items gives n
  output items, one per input, each \<^verbatim>\<open>{error: message}\<close>, and no error
  reaches the host. What holds: no error reaches the host, and the output is one branch
  holding what constructExecutionMetaData makes of the single record
  \<^verbatim>\<open>{error: message}\<close> and the paired-item data of the n inputs; with the
  engine's helper that is one output item, paired with all n inputs, whatever n is.
\<close>

theorem continue_on_fail_single_record:
  assumes "continueOnFail c" and "fst (execute_try l c) = Inl e"
  shows "fst (execute l c) =
           Inr [constructExecutionMetaData c [error_item e]
                  (generatePairedItemData l (length (inputData c)))]
         \<and> (constructExecutionMetaData c = host_constructExecutionMetaData \<longrightarrow>
              fst (execute l c) =
                Inr [[(error_item e)\<lparr>pairedItem :=
                        Some (generatePairedItemData l (length (inputData c)))\<rparr>]])"
  using assms
  by (cases "execute_try l c")
     (simp add: execute_def Let_def host_constructExecutionMetaData_def)

theorem continue_on_fail_single_record_witness:
  "continueOnFail ((no_parent_ctx 1.1)\<lparr>continueOnFail := True\<rparr>) \<and>
   length (inputData ((no_parent_ctx 1.1)\<lparr>continueOnFail := True\<rparr>)) = 1 \<and>
   fst (execute std_lib ((no_parent_ctx 1.1)\<lparr>continueOnFail := True\<rparr>)) =
     Inr [[\<lparr>json = JObj [(''error'', JStr ''No Webhook node found in the workflow'')],
            binary = None, pairedItem = Some [0], sendMessage = None\<rparr>]]"
proof -
  let ?c = "(no_parent_ctx 1.1)\<lparr>continueOnFail := True\<rparr>"
  have h1: "continueOnFail ?c" by simp
  have h2: "fst (execute_try std_lib ?c) =
              Inl (NodeOperationError ''No Webhook node found in the workflow'')"
    by (simp add: no_parent_ctx_def execute_try_def webhook_check_def mk_ctx_def)
  have h3: "constructExecutionMetaData ?c = host_constructExecutionMetaData"
    by (simp add: no_parent_ctx_def mk_ctx_def)
  have g: "generatePairedItemData std_lib (length (inputData ?c)) = [0]"
    by (simp add: no_parent_ctx_def mk_ctx_def std_lib_def)
  have n: "length (inputData ?c) = 1" by (simp add: no_parent_ctx_def mk_ctx_def)
  from continue_on_fail_single_record[OF h1 h2] h3 g h1 n show ?thesis
    by (simp add: error_item_def host_constructExecutionMetaData_def)
qed

theorem continue_on_fail_counterexample:
  "length (inputData invalid_json_ctx) = 2 \<and>
   fst (execute std_lib invalid_json_ctx) =
     Inr [[\<lparr>json = JObj [(''error'', JStr invalid_json_message)], binary = None,
            pairedItem = Some [0, 1], sendMessage = None\<rparr>]]"
  by (simp add: invalid_json_ctx_def run_defs mode_defs fixture_defs node_type_defs upt_rec)

subsection \<open>The chat trigger\<close>

text \<open>
  C4. The claim: whenever an enabled upstream chat trigger configured with responseMode
  responseNodes is present, execute suspends the execution indefinitely with
  putExecutionToWait instead of calling sendResponse and returns a message taken from
  the body's output, text or message field, in that order, or the JSON text of a
  non-empty object body when those are absent. What holds: this is so when the first
  enabled chat trigger among the parents is the one so configured (the node looks at
  that one only) and the response body was built without error. Then the last host call
  is putExecutionToWait with the indefinite marker, sendResponse is not called, and the
  one item returned has an empty json and the message in its sendMessage field.
\<close>

theorem chat_trigger_defers_response:
  assumes "chatTrigger c = Some ct"
    and "get_prop (parameters ct) ''options'' = Inr os"
    and "get_prop os ''responseMode'' = Inr (JStr ''responseNodes'')"
    and "fst (build l c) = Inr (b, hs, sc)"
  shows "fst (execute l c) =
           Inr [[\<lparr>json = JObj [], binary = None, pairedItem = None,
                  sendMessage = Some (chat_message l b)\<rparr>]]
         \<and> snd (execute l c) = snd (build l c) @ [PutExecutionToWait WAIT_INDEFINITELY]
         \<and> filter is_response (snd (execute l c)) = []
         \<and> (\<forall>kvs. b = JObj kvs \<longrightarrow>
              chat_message l b =
                (case extracted_message kvs of
                   None \<Rightarrow> if kvs = [] then JStr []
                           else (case stringifyPretty l b of None \<Rightarrow> JStr [] | Some s \<Rightarrow> JStr s)
                 | Some v \<Rightarrow> if v = JStr []
                             then (case stringifyPretty l b of None \<Rightarrow> JStr [] | Some s \<Rightarrow> JStr s)
                             else v))"
proof -
  have d: "chat_deferred c = Inr True"
    using assms(1-3) chatTrigger_enabled[OF assms(1)] by (simp add: chat_deferred_def)
  have w: "webhook_check c = None" by (rule chatTrigger_passes_check[OF assms(1)])
  obtain tr where b: "build l c = (Inr (b, hs, sc), tr)"
    using assms(4) by (cases "build l c") auto
  have r: "respond l c =
             (Inr (Deferred (chat_message l b)), tr @ [PutExecutionToWait WAIT_INDEFINITELY])"
    using b d by (simp add: respond_def)
  have e: "execute l c =
             (Inr [[\<lparr>json = JObj [], binary = None, pairedItem = None,
                     sendMessage = Some (chat_message l b)\<rparr>]],
              tr @ [PutExecutionToWait WAIT_INDEFINITELY])"
    using r w by (simp add: execute_def execute_try_def message_item_def Let_def)
  have n: "filter is_response tr = []" using build_no_response[of l c] b by simp
  have m: "\<forall>kvs. b = JObj kvs \<longrightarrow>
              chat_message l b =
                (case extracted_message kvs of
                   None \<Rightarrow> if kvs = [] then JStr []
                           else (case stringifyPretty l b of None \<Rightarrow> JStr [] | Some s \<Rightarrow> JStr s)
                 | Some v \<Rightarrow> if v = JStr []
                             then (case stringifyPretty l b of None \<Rightarrow> JStr [] | Some s \<Rightarrow> JStr s)
                             else v)"
    using chat_message_object by blast
  have 1: "fst (execute l c) =
             Inr [[\<lparr>json = JObj [], binary = None, pairedItem = None,
                    sendMessage = Some (chat_message l b)\<rparr>]]"
    using e by simp
  have 2: "snd (execute l c) = snd (build l c) @ [PutExecutionToWait WAIT_INDEFINITELY]"
    using e b by simp
  have 3: "filter is_response (snd (execute l c)) = []" using e n by simp
  from 1 2 3 m show ?thesis by blast
qed

theorem chat_trigger_defers_response_witness:
  "chatTrigger chat_first_item_ctx = Some (chat_node (chat_options ''responseNodes'')) \<and>
   execute std_lib chat_first_item_ctx =
     (Inr [[\<lparr>json = JObj [], binary = None, pairedItem = None,
             sendMessage = Some (JStr ''hi'')\<rparr>]],
      [PutExecutionToWait WAIT_INDEFINITELY])"
proof -
  let ?ct = "chat_node (chat_options ''responseNodes'')"
  have h1: "chatTrigger chat_first_item_ctx = Some ?ct"
    by (simp add: chat_first_item_ctx_def chatTrigger_def mk_ctx_def chat_node_def)
  have h2: "get_prop (parameters ?ct) ''options'' = Inr (JObj [(''responseMode'', JStr ''responseNodes'')])"
    by (simp add: chat_node_def chat_options_def)
  have h3: "get_prop (JObj [(''responseMode'', JStr ''responseNodes'')]) ''responseMode''
              = Inr (JStr ''responseNodes'')"
    by simp
  have h4: "build std_lib chat_first_item_ctx = (Inr (JObj [(''text'', JStr ''hi'')], [], 200), [])"
    by (simp add: chat_first_item_ctx_def run_defs mode_defs fixture_defs)
  then have h4': "fst (build std_lib chat_first_item_ctx) = Inr (JObj [(''text'', JStr ''hi'')], [], 200)"
    by simp
  have m: "chat_message std_lib (JObj [(''text'', JStr ''hi'')]) = JStr ''hi''"
    by (simp add: chat_message_def coalesce_def)
  from chat_trigger_defers_response[OF h1 h2 h3 h4'] h4 m h1 show ?thesis
    by (simp add: prod_eq_iff)
qed

theorem chat_trigger_counterexample:
  "chatTrigger two_chats_ctx = Some (chat_node (chat_options ''lastNode'')) \<and>
   parentNodes two_chats_ctx ! 1 = chat_node (chat_options ''responseNodes'') \<and>
   execute std_lib two_chats_ctx =
     (Inr [[mk_item (JObj [])]],
      [SendResponse \<lparr>body = JUndefined, headers = [], statusCode = 200\<rparr>])"
  by (simp add: two_chats_ctx_def run_defs mode_defs fixture_defs node_type_defs)

subsection \<open>Mode binary\<close>

text \<open>
  C5. The claim: in mode binary, for every setting of the response data source, a first
  item with zero binary fields makes execute fail with "No binary data exists on the
  first item!". What holds, once the parent check and the header loop have passed and
  there is a first item: that error is thrown when the first item has no binary
  property at all, whatever the data source, and when it has an empty binary object and
  the data source is not the explicit field name. With the explicit field name and a
  binary object, empty or not, the node throws no error of its own: it calls
  assertBinaryData with item index 0 and the configured field name, throws what that
  helper throws, and otherwise builds the response from the helper's binary data.
\<close>

theorem binary_without_data_fails:
  assumes "respondWith c = ''binary''"
    and "webhook_check c = None"
    and "entries_present c"
    and "inputData c = it # rest"
  shows "(binary it = None \<or> (binary it = Some [] \<and> responseDataSource c \<noteq> ''set'') \<longrightarrow>
            execute_try l c =
              (Inl (NodeOperationError ''No binary data exists on the first item!''), [])
            \<and> (\<not> continueOnFail c \<longrightarrow>
                 execute l c =
                   (Inl (NodeOperationError ''No binary data exists on the first item!''), [])))
         \<and> (\<forall>bin. binary it = Some bin \<and> responseDataSource c = ''set'' \<longrightarrow>
              (\<forall>e. assertBinaryData c 0 (inputFieldName c) = Inl e \<longrightarrow>
                 execute_try l c = (Inl e, [])
                 \<and> (\<not> continueOnFail c \<longrightarrow> execute l c = (Inl e, [])))
              \<and> (\<forall>bd. assertBinaryData c 0 (inputFieldName c) = Inr bd \<longrightarrow>
                    snd (build l c) = []
                    \<and> (\<exists>hs sc. build_headers c = Inr hs
                          \<and> fst (build l c) =
                              Inr (fst (getBinaryResponse l bd hs),
                                   snd (getBinaryResponse l bd hs), sc))))"
proof -
  let ?nb = "NodeOperationError ''No binary data exists on the first item!''"
  let ?hs = "fold (\<lambda>h acc. set_header (header_key h) (header_val h) acc) (header_entries c) []"
  have hd: "build_headers c = Inr ?hs" by (rule build_headers_present[OF assms(3)])
  have a: "binary it = None \<or> (binary it = Some [] \<and> responseDataSource c \<noteq> ''set'') \<longrightarrow>
            execute_try l c = (Inl ?nb, [])
            \<and> (\<not> continueOnFail c \<longrightarrow> execute l c = (Inl ?nb, []))"
  proof
    assume h: "binary it = None \<or> (binary it = Some [] \<and> responseDataSource c \<noteq> ''set'')"
    have b: "build l c = (Inl ?nb, [])"
      using assms(1,4) h hd by (auto simp: build_def dispatch_def respond_binary_def Let_def)
    then have t: "execute_try l c = (Inl ?nb, [])"
      using assms(2) by (simp add: execute_try_def respond_def)
    then show "execute_try l c = (Inl ?nb, [])
            \<and> (\<not> continueOnFail c \<longrightarrow> execute l c = (Inl ?nb, []))"
      by (simp add: execute_def Let_def)
  qed
  have s: "\<forall>bin. binary it = Some bin \<and> responseDataSource c = ''set'' \<longrightarrow>
              (\<forall>e. assertBinaryData c 0 (inputFieldName c) = Inl e \<longrightarrow>
                 execute_try l c = (Inl e, [])
                 \<and> (\<not> continueOnFail c \<longrightarrow> execute l c = (Inl e, [])))
              \<and> (\<forall>bd. assertBinaryData c 0 (inputFieldName c) = Inr bd \<longrightarrow>
                    snd (build l c) = []
                    \<and> (\<exists>hs sc. build_headers c = Inr hs
                          \<and> fst (build l c) =
                              Inr (fst (getBinaryResponse l bd hs),
                                   snd (getBinaryResponse l bd hs), sc)))"
  proof (intro allI impI conjI)
    fix bin e
    assume h: "binary it = Some bin \<and> responseDataSource c = ''set''"
      and e: "assertBinaryData c 0 (inputFieldName c) = Inl e"
    have b: "build l c = (Inl e, [])"
      using assms(1,4) h e hd by (simp add: build_def dispatch_def respond_binary_def Let_def)
    then show t: "execute_try l c = (Inl e, [])"
      using assms(2) by (simp add: execute_try_def respond_def)
    assume "\<not> continueOnFail c"
    with t show "execute l c = (Inl e, [])" by (simp add: execute_def Let_def)
  next
    fix bin bd
    assume h: "binary it = Some bin \<and> responseDataSource c = ''set''"
      and e: "assertBinaryData c 0 (inputFieldName c) = Inr bd"
    show "snd (build l c) = []"
      using assms(1,4) h e hd
      by (simp add: build_def dispatch_def respond_binary_def Let_def split: prod.split)
    show "\<exists>hs sc. build_headers c = Inr hs
            \<and> fst (build l c) =
                Inr (fst (getBinaryResponse l bd hs), snd (getBinaryResponse l bd hs), sc)"
      using assms(1,4) h e hd
      by (simp add: build_def dispatch_def respond_binary_def Let_def split: prod.split)
  qed
  from a s show ?thesis by blast
qed

theorem binary_without_data_fails_witness:
  "execute std_lib no_binary_ctx =
     (Inl (NodeOperationError ''No binary data exists on the first item!''), [])
   \<and> execute std_lib empty_binary_auto_ctx =
     (Inl (NodeOperationError ''No binary data exists on the first item!''), [])
   \<and> assertBinaryData empty_binary_set_ctx 0 (inputFieldName empty_binary_set_ctx) =
        Inl (no_binary_field ''data'' 0)
   \<and> execute std_lib empty_binary_set_ctx = (Inl (no_binary_field ''data'' 0), [])"
proof -
  have r1: "respondWith no_binary_ctx = ''binary''"
    and w1: "webhook_check no_binary_ctx = None"
    and e1: "entries_present no_binary_ctx"
    and c1: "\<not> continueOnFail no_binary_ctx"
    and i1: "inputData no_binary_ctx = mk_item (JObj []) # []"
    by (simp_all add: no_binary_ctx_def mk_ctx_def webhook_check_def webhook_node_def
          node_type_defs entries_present_def no_opts_def)
  have r2: "respondWith empty_binary_auto_ctx = ''binary''"
    and w2: "webhook_check empty_binary_auto_ctx = None"
    and e2: "entries_present empty_binary_auto_ctx"
    and c2: "\<not> continueOnFail empty_binary_auto_ctx"
    and i2: "inputData empty_binary_auto_ctx = (mk_item (JObj []))\<lparr>binary := Some []\<rparr> # []"
    and d2: "responseDataSource empty_binary_auto_ctx \<noteq> ''set''"
    by (simp_all add: empty_binary_auto_ctx_def mk_ctx_def webhook_check_def webhook_node_def
          node_type_defs entries_present_def no_opts_def)
  have r3: "respondWith empty_binary_set_ctx = ''binary''"
    and w3: "webhook_check empty_binary_set_ctx = None"
    and e3: "entries_present empty_binary_set_ctx"
    and c3: "\<not> continueOnFail empty_binary_set_ctx"
    and i3: "inputData empty_binary_set_ctx = (mk_item (JObj []))\<lparr>binary := Some []\<rparr> # []"
    and d3: "responseDataSource empty_binary_set_ctx = ''set''"
    by (simp_all add: empty_binary_set_ctx_def mk_ctx_def webhook_check_def webhook_node_def
          node_type_defs entries_present_def no_opts_def)
  have b1: "binary (mk_item (JObj [])) = None" by (simp add: mk_item_def)
  have b2: "binary ((mk_item (JObj []))\<lparr>binary := Some []\<rparr>) = Some []" by simp
  have a3: "assertBinaryData empty_binary_set_ctx 0 (inputFieldName empty_binary_set_ctx) =
              Inl (no_binary_field ''data'' 0)"
    by (simp add: empty_binary_set_ctx_def mk_ctx_def host_assertBinaryData_def mk_item_def)
  note t1 = binary_without_data_fails[OF r1 w1 e1 i1, of std_lib]
  note t2 = binary_without_data_fails[OF r2 w2 e2 i2, of std_lib]
  note t3 = binary_without_data_fails[OF r3 w3 e3 i3, of std_lib]
  have 1: "execute std_lib no_binary_ctx =
     (Inl (NodeOperationError ''No binary data exists on the first item!''), [])"
    using t1 b1 c1 by simp
  have 2: "execute std_lib empty_binary_auto_ctx =
     (Inl (NodeOperationError ''No binary data exists on the first item!''), [])"
    using t2 b2 d2 c2 by simp
  have 3: "execute std_lib empty_binary_set_ctx = (Inl (no_binary_field ''data'' 0), [])"
    using t3 b2 d3 a3 c3 by simp
  from 1 2 a3 3 show ?thesis by simp
qed

theorem binary_explicit_field_counterexample:
  "respondWith empty_binary_set_ctx = ''binary'' \<and>
   map binary (inputData empty_binary_set_ctx) = [Some []] \<and>
   execute std_lib empty_binary_set_ctx =
     (Inl (NodeOperationError
             (''The item has no binary field '' @ [CHR 0x27] @ ''data'' @ [CHR 0x27]
                @ '' [item 0]'')), []) \<and>
   ''The item has no binary field '' @ [CHR 0x27] @ ''data'' @ [CHR 0x27] @ '' [item 0]''
     \<noteq> ''No binary data exists on the first item!''"
  by (simp add: empty_binary_set_ctx_def run_defs mode_defs fixture_defs node_type_defs
        no_binary_field_def string_of_nat_0)

subsection \<open>Mode text\<close>

lemma map_of_replace_key:
  "map_of (replace_key k v hs) k' =
     (if k' = k \<and> map_of hs k \<noteq> None then Some v else map_of hs k')"
  by (induction hs) auto

lemma map_of_insert_key:
  "map_of hs k = None \<Longrightarrow>
     map_of (insert_key k v hs) k' = (if k' = k then Some v else map_of hs k')"
  by (induction hs) (auto split: option.splits if_splits)

lemma map_of_set_header:
  "k' \<noteq> ''__proto__'' \<Longrightarrow>
     map_of (set_header k v hs) k' = (if k' = k then Some v else map_of hs k')"
  by (cases "map_of hs k")
     (auto simp: set_header_def map_of_replace_key map_of_insert_key)

lemma find_snoc:
  "find P (xs @ [x]) = (case find P xs of None \<Rightarrow> if P x then Some x else None | Some y \<Rightarrow> Some y)"
  by (induction xs) auto

lemma map_of_fold_headers:
  "k \<noteq> ''__proto__'' \<Longrightarrow>
   map_of (fold (\<lambda>h acc. set_header (header_key h) (header_val h) acc) es acc) k =
     (case find (\<lambda>h. header_key h = k) (rev es) of
        None \<Rightarrow> map_of acc k
      | Some h \<Rightarrow> Some (header_val h))"
proof (induction es arbitrary: acc)
  case Nil
  then show ?case by simp
next
  case (Cons e es)
  show ?case
    by (simp add: Cons.IH[OF Cons.prems] find_snoc map_of_set_header[OF Cons.prems]
          split: option.split)
qed

lemma get_header_content_type:
  "get_header (fold (\<lambda>h acc. set_header (header_key h) (header_val h) acc)
                 (header_entries c) []) ''content-type'' =
     (case configured_content_type c of None \<Rightarrow> JUndefined | Some v \<Rightarrow> JStr v)"
proof (cases "find (\<lambda>h. header_key h = ''content-type'') (rev (header_entries c))")
  case None
  then show ?thesis
    by (simp add: get_header_def configured_content_type_def map_of_fold_headers)
next
  case (Some h)
  then have g: "get_header (fold (\<lambda>h acc. set_header (header_key h) (header_val h) acc)
                 (header_entries c) []) ''content-type'' = header_val h"
    and t: "configured_content_type c = hvalue h"
    by (simp_all add: get_header_def configured_content_type_def map_of_fold_headers)
  show ?thesis unfolding g t by (simp add: header_val_def)
qed

lemma text_sanitize_condition:
  "(hasHtmlContentType l (fold (\<lambda>h acc. set_header (header_key h) (header_val h) acc)
                            (header_entries c) [])
      \<or> \<not> truthy (get_header (fold (\<lambda>h acc. set_header (header_key h) (header_val h) acc)
                                (header_entries c) []) ''content-type'')) =
   (case configured_content_type c of
      None \<Rightarrow> True
    | Some v \<Rightarrow> v = [] \<or> isHtmlRenderedContentType l v)"
  by (auto simp: hasHtmlContentType_def get_header_content_type split: option.split)

text \<open>
  C6. The claim: in mode text the response body is the sanitized form of the configured
  string when the response headers have no content-type entry or an HTML-rendering one,
  and the raw string when a non-HTML content type is set. What holds, once the header
  loop has passed: this is the body the dispatch builds, and the body handed to
  sendResponse when the node does not stream and does not defer to the chat service,
  with the content type read as the code reads it (names compared in lower case, the
  last entry of the name wins, an undefined or empty value counts as no content type).
  When the node streams, no response is handed to sendResponse: the raw configured
  string goes out unsanitized in the item chunk, whatever the content type.
\<close>

theorem text_body_sanitized_unless_streaming:
  assumes "respondWith c = ''text''" and "entries_present c"
  shows "fst (build l c) =
           Inr (case configured_content_type c of
                  None \<Rightarrow> sandboxHtmlResponse l (responseBody c)
                | Some v \<Rightarrow>
                    if v = [] \<or> isHtmlRenderedContentType l v
                    then sandboxHtmlResponse l (responseBody c)
                    else responseBody c,
                fold (\<lambda>h acc. set_header (header_key h) (header_val h) acc)
                  (header_entries c) [],
                case responseCode (options c) of
                  None \<Rightarrow> 200
                | Some n \<Rightarrow> if n \<noteq> 0 then n else 200)
         \<and> (webhook_check c = None \<and> chat_deferred c = Inr False \<and> \<not> shouldStream c \<longrightarrow>
              snd (execute l c) =
                [SendResponse
                   \<lparr>body = (case configured_content_type c of
                              None \<Rightarrow> sandboxHtmlResponse l (responseBody c)
                            | Some v \<Rightarrow>
                                if v = [] \<or> isHtmlRenderedContentType l v
                                then sandboxHtmlResponse l (responseBody c)
                                else responseBody c),
                    headers = fold (\<lambda>h acc. set_header (header_key h) (header_val h) acc)
                                (header_entries c) [],
                    statusCode = (case responseCode (options c) of
                                    None \<Rightarrow> 200
                                  | Some n \<Rightarrow> if n \<noteq> 0 then n else 200)\<rparr>])
         \<and> (webhook_check c = None \<and> chat_deferred c = Inr False \<and> shouldStream c \<longrightarrow>
              snd (execute l c) =
                [SendChunk ''begin'' 0 JUndefined, SendChunk ''item'' 0 (responseBody c),
                 SendChunk ''end'' 0 JUndefined])"
proof -
  let ?X = "case configured_content_type c of
              None \<Rightarrow> sandboxHtmlResponse l (responseBody c)
            | Some v \<Rightarrow>
                if v = [] \<or> isHtmlRenderedContentType l v
                then sandboxHtmlResponse l (responseBody c)
                else responseBody c"
  let ?S = "case responseCode (options c) of None \<Rightarrow> 200 | Some n \<Rightarrow> if n \<noteq> 0 then n else (200::int)"
  let ?H = "fold (\<lambda>h acc. set_header (header_key h) (header_val h) acc) (header_entries c) []"
  have hd: "build_headers c = Inr ?H" by (rule build_headers_present[OF assms(2)])
  have x: "(if hasHtmlContentType l ?H \<or> \<not> truthy (get_header ?H ''content-type'')
            then sandboxHtmlResponse l (responseBody c) else responseBody c) = ?X"
    by (simp add: text_sanitize_condition split: option.split)
  have b: "build l c = (Inr (?X, ?H, ?S), stream_chunks c (responseBody c))"
    using assms(1) hd x by (simp add: build_def dispatch_def respond_text_def Let_def)
  have 1: "fst (build l c) = Inr (?X, ?H, ?S)" using b by simp
  have 2: "webhook_check c = None \<and> chat_deferred c = Inr False \<and> \<not> shouldStream c \<longrightarrow>
             snd (execute l c) =
               [SendResponse \<lparr>body = ?X, headers = ?H, statusCode = ?S\<rparr>]"
    using assms(1) b
    by (auto simp: execute_def execute_try_def respond_def deliver_def stream_chunks_def Let_def)
  have 3: "webhook_check c = None \<and> chat_deferred c = Inr False \<and> shouldStream c \<longrightarrow>
             snd (execute l c) =
               [SendChunk ''begin'' 0 JUndefined, SendChunk ''item'' 0 (responseBody c),
                SendChunk ''end'' 0 JUndefined]"
    using assms(1) b
    by (auto simp: execute_def execute_try_def respond_def deliver_def stream_chunks_def
          chunks_def Let_def)
  from 1 2 3 show ?thesis by blast
qed

theorem text_body_sanitized_unless_streaming_witness:
  "configured_content_type (text_ctx ''Content-Type'' ''text/plain'') = Some ''text/plain'' \<and>
   snd (execute std_lib (text_ctx ''Content-Type'' ''text/plain'')) =
     [SendResponse \<lparr>body = JStr ''<script>'',
                     headers = [(''content-type'', JStr ''text/plain'')], statusCode = 200\<rparr>] \<and>
   snd (execute std_lib (text_ctx ''Content-Type'' ''text/HTML; charset=utf-8'')) =
     [SendResponse \<lparr>body = JStr ''<iframe srcdoc=<script>></iframe>'',
                     headers = [(''content-type'', JStr ''text/HTML; charset=utf-8'')],
                     statusCode = 200\<rparr>] \<and>
   snd (execute std_lib (text_ctx ''X-Other'' ''text/plain'')) =
     [SendResponse \<lparr>body = JStr ''<iframe srcdoc=<script>></iframe>'',
                     headers = [(''x-other'', JStr ''text/plain'')], statusCode = 200\<rparr>] \<and>
   snd (execute std_lib (text_ctx ''Content-Type'' [])) =
     [SendResponse \<lparr>body = JStr ''<iframe srcdoc=<script>></iframe>'',
                     headers = [(''content-type'', JStr [])], statusCode = 200\<rparr>]"
proof -
  let ?c = "text_ctx ''Content-Type'' ''text/plain''"
  have h1: "respondWith ?c = ''text''" by (simp add: text_ctx_def mk_ctx_def)
  have h2: "webhook_check ?c = None \<and> chat_deferred ?c = Inr False \<and> \<not> shouldStream ?c"
    by (simp add: text_ctx_def mk_ctx_def webhook_check_def chat_deferred_def chatTrigger_def
          shouldStream_def webhook_node_def node_type_defs)
  have h3: "entries_present ?c"
    by (simp add: text_ctx_def mk_ctx_def entries_present_def no_opts_def)
  have he: "header_entries ?c = [\<lparr>hname = Some ''Content-Type'', hvalue = Some ''text/plain''\<rparr>]"
    by (simp add: text_ctx_def mk_ctx_def header_entries_def no_opts_def)
  have t: "configured_content_type ?c = Some ''text/plain''"
    by (simp add: configured_content_type_def he header_defs)
  have hs: "fold (\<lambda>h acc. set_header (header_key h) (header_val h) acc) (header_entries ?c) []
              = [(''content-type'', JStr ''text/plain'')]"
    by (simp add: he header_defs)
  have nh: "\<not> isHtmlRenderedContentType std_lib ''text/plain''"
    by (simp add: std_lib_def toLowerCase_def lower_char_def)
  have rb: "responseBody ?c = JStr ''<script>''" "responseCode (options ?c) = None"
    by (simp_all add: text_ctx_def mk_ctx_def no_opts_def)
  have a: "snd (execute std_lib ?c) =
     [SendResponse \<lparr>body = JStr ''<script>'',
                     headers = [(''content-type'', JStr ''text/plain'')], statusCode = 200\<rparr>]"
    using text_body_sanitized_unless_streaming[OF h1 h3, of std_lib] h2 t hs nh rb
    by simp
  have b: "snd (execute std_lib (text_ctx ''Content-Type'' ''text/HTML; charset=utf-8'')) =
     [SendResponse \<lparr>body = JStr ''<iframe srcdoc=<script>></iframe>'',
                     headers = [(''content-type'', JStr ''text/HTML; charset=utf-8'')],
                     statusCode = 200\<rparr>]"
    by (simp add: text_ctx_def run_defs mode_defs fixture_defs node_type_defs header_defs)
  have c: "snd (execute std_lib (text_ctx ''X-Other'' ''text/plain'')) =
     [SendResponse \<lparr>body = JStr ''<iframe srcdoc=<script>></iframe>'',
                     headers = [(''x-other'', JStr ''text/plain'')], statusCode = 200\<rparr>]"
    by (simp add: text_ctx_def run_defs mode_defs fixture_defs node_type_defs header_defs)
  have d: "snd (execute std_lib (text_ctx ''Content-Type'' [])) =
     [SendResponse \<lparr>body = JStr ''<iframe srcdoc=<script>></iframe>'',
                     headers = [(''content-type'', JStr [])], statusCode = 200\<rparr>]"
    by (simp add: text_ctx_def run_defs mode_defs fixture_defs node_type_defs header_defs)
  from t a b c d show ?thesis by blast
qed

theorem text_streaming_counterexample:
  "respondWith streaming_text_ctx = ''text'' \<and>
   configured_content_type streaming_text_ctx = None \<and>
   responseBody streaming_text_ctx = JStr ''<script>'' \<and>
   sandboxHtmlResponse std_lib (JStr ''<script>'') = JStr ''<iframe srcdoc=<script>></iframe>'' \<and>
   execute std_lib streaming_text_ctx =
     (Inr [[mk_item (JObj [])]],
      [SendChunk ''begin'' 0 JUndefined, SendChunk ''item'' 0 (JStr ''<script>''),
       SendChunk ''end'' 0 JUndefined])"
  by (simp add: streaming_text_ctx_def configured_content_type_def header_entries_def
        run_defs mode_defs fixture_defs node_type_defs)

subsection \<open>The parent check\<close>

text \<open>
  C7. From version 1.1 on, when no parent node has one of the four webhook types, the
  try block throws "No Webhook node found in the workflow" before any dispatch on the
  mode: no host call has been made, whatever the mode, and without continue-on-fail the
  error reaches the host. Below version 1.1 the check is not made and the execution is
  the dispatch and what follows it, whatever the parents are.
\<close>

theorem webhook_parent_check:
  "(typeVersion c \<ge> 1.1
      \<and> \<not> list_ex (\<lambda>n. node_type n \<in> set WEBHOOK_NODE_TYPES) (parentNodes c) \<longrightarrow>
      execute_try l c =
        (Inl (NodeOperationError ''No Webhook node found in the workflow''), [])
      \<and> (\<not> continueOnFail c \<longrightarrow>
           execute l c =
             (Inl (NodeOperationError ''No Webhook node found in the workflow''), [])))
   \<and> (typeVersion c < 1.1 \<longrightarrow> webhook_check c = None \<and> execute_try l c = respond l c)"
  by (simp add: execute_def execute_try_def webhook_check_def Let_def)

theorem webhook_parent_check_witness:
  "execute std_lib (no_parent_ctx 1.1) =
     (Inl (NodeOperationError ''No Webhook node found in the workflow''), [])
   \<and> execute std_lib (no_parent_ctx 1.5) =
     (Inl (NodeOperationError ''No Webhook node found in the workflow''), [])
   \<and> execute std_lib (no_parent_ctx 1) =
     (Inr [[mk_item (JObj [])]],
      [SendResponse \<lparr>body = JUndefined, headers = [], statusCode = 200\<rparr>])"
proof -
  have a: "typeVersion (no_parent_ctx 1.1) \<ge> 1.1
      \<and> \<not> list_ex (\<lambda>n. node_type n \<in> set WEBHOOK_NODE_TYPES) (parentNodes (no_parent_ctx 1.1))"
    by (simp add: no_parent_ctx_def mk_ctx_def)
  have b: "\<not> continueOnFail (no_parent_ctx 1.1)" by (simp add: no_parent_ctx_def mk_ctx_def)
  have 1: "execute std_lib (no_parent_ctx 1.1) =
     (Inl (NodeOperationError ''No Webhook node found in the workflow''), [])"
    using webhook_parent_check[of "no_parent_ctx 1.1" std_lib] a b by blast
  have 2: "execute std_lib (no_parent_ctx 1.5) =
     (Inl (NodeOperationError ''No Webhook node found in the workflow''), [])"
    by (simp add: no_parent_ctx_def run_defs mode_defs fixture_defs node_type_defs)
  have 3: "execute std_lib (no_parent_ctx 1) =
     (Inr [[mk_item (JObj [])]],
      [SendResponse \<lparr>body = JUndefined, headers = [], statusCode = 200\<rparr>])"
    by (simp add: no_parent_ctx_def run_defs mode_defs fixture_defs node_type_defs)
  from 1 2 3 show ?thesis by blast
qed

subsection \<open>The chat message and the chat trigger's options\<close>

text \<open>
  C8. When the chat deferral is taken and the response body is an array or is not an
  object, the message handed off is the empty string: the one item returned has an
  empty json and the empty string in its sendMessage field. The extraction of output,
  text or message and the JSON fallback are applied to non-array objects only.
\<close>

theorem chat_message_empty_for_non_object_body:
  assumes "webhook_check c = None"
    and "fst (build l c) = Inr (b, hs, sc)"
    and "chat_deferred c = Inr True"
    and "isArray b \<or> (\<forall>kvs. b \<noteq> JObj kvs)"
  shows "fst (execute l c) =
           Inr [[\<lparr>json = JObj [], binary = None, pairedItem = None,
                  sendMessage = Some (JStr [])\<rparr>]]"
proof -
  have m: "chat_message l b = JStr []"
    using assms(4) by (cases b) (auto simp: chat_message_def)
  obtain tr where bl: "build l c = (Inr (b, hs, sc), tr)"
    using assms(2) by (cases "build l c") auto
  show ?thesis
    using assms(1,3) bl m
    by (simp add: execute_def execute_try_def respond_def message_item_def Let_def)
qed

theorem chat_message_empty_for_non_object_body_witness:
  "fst (build std_lib chat_all_items_ctx) = Inr (JArr [JObj [(''text'', JStr ''hi'')]], [], 200) \<and>
   fst (execute std_lib chat_all_items_ctx) =
     Inr [[\<lparr>json = JObj [], binary = None, pairedItem = None,
            sendMessage = Some (JStr [])\<rparr>]]"
proof -
  have h1: "webhook_check chat_all_items_ctx = None"
    by (simp add: chat_all_items_ctx_def mk_ctx_def webhook_check_def chat_node_def
          node_type_defs)
  have h2: "fst (build std_lib chat_all_items_ctx) =
              Inr (JArr [JObj [(''text'', JStr ''hi'')]], [], 200)"
    by (simp add: chat_all_items_ctx_def run_defs mode_defs fixture_defs)
  have h3: "chat_deferred chat_all_items_ctx = Inr True"
    by (simp add: chat_all_items_ctx_def mk_ctx_def chat_deferred_def chatTrigger_def
          chat_node_def chat_options_def)
  have h4: "isArray (JArr [JObj [(''text'', JStr ''hi'')]])
            \<or> (\<forall>kvs. JArr [JObj [(''text'', JStr ''hi'')]] \<noteq> JObj kvs)"
    by simp
  from chat_message_empty_for_non_object_body[OF h1 h2 h3 h4] h2 show ?thesis by simp
qed

text \<open>
  C9. The claim: in every mode, if an enabled upstream chat trigger exists whose
  parameters lack an options object, execute throws a TypeError after the response body
  has been built. What holds: this is so when the first enabled chat trigger among the
  parents is the one without options (the node reads the parameters of that one only):
  reading responseMode of the undefined options throws a TypeError, not a
  NodeOperationError, after the dispatch has built the body and sent its chunks.
\<close>

theorem chat_trigger_without_options_throws:
  assumes "chatTrigger c = Some ct"
    and "get_prop (parameters ct) ''options'' = Inr JUndefined"
    and "fst (build l c) = Inr bt"
  shows "execute_try l c = (Inl (cannot_read ''undefined'' ''responseMode''), snd (build l c))
         \<and> (\<exists>m. cannot_read ''undefined'' ''responseMode'' = TypeError m)
         \<and> (\<not> continueOnFail c \<longrightarrow>
               execute l c =
                 (Inl (cannot_read ''undefined'' ''responseMode''), snd (build l c)))"
proof -
  have d: "chat_deferred c = Inl (cannot_read ''undefined'' ''responseMode'')"
    using assms(1,2) chatTrigger_enabled[OF assms(1)] by (simp add: chat_deferred_def)
  have w: "webhook_check c = None" by (rule chatTrigger_passes_check[OF assms(1)])
  obtain tr where b: "build l c = (Inr bt, tr)"
    using assms(3) by (cases "build l c") auto
  have t: "execute_try l c = (Inl (cannot_read ''undefined'' ''responseMode''), snd (build l c))"
    using d w b by (simp add: execute_try_def respond_def)
  then show ?thesis by (simp add: execute_def Let_def cannot_read_def)
qed

theorem chat_trigger_without_options_throws_witness:
  "chatTrigger bare_chat_ctx = Some (chat_node (JObj [])) \<and>
   execute std_lib bare_chat_ctx = (Inl (cannot_read ''undefined'' ''responseMode''), [])"
proof -
  have h1: "chatTrigger bare_chat_ctx = Some (chat_node (JObj []))"
    by (simp add: bare_chat_ctx_def chatTrigger_def mk_ctx_def chat_node_def)
  have h2: "get_prop (parameters (chat_node (JObj []))) ''options'' = Inr JUndefined"
    by (simp add: chat_node_def)
  have h3: "build std_lib bare_chat_ctx = (Inr (JUndefined, [], 200), [])"
    by (simp add: bare_chat_ctx_def run_defs mode_defs fixture_defs)
  then have h3': "fst (build std_lib bare_chat_ctx) = Inr (JUndefined, [], 200)" by simp
  have h4: "\<not> continueOnFail bare_chat_ctx" by (simp add: bare_chat_ctx_def mk_ctx_def)
  from chat_trigger_without_options_throws[OF h1 h2 h3'] h3 h4 h1 show ?thesis
    by (simp add: prod_eq_iff)
qed

theorem chat_trigger_without_options_counterexample:
  "parentNodes chat_then_bare_chat_ctx ! 1 = chat_node (JObj []) \<and>
   get_prop (parameters (chat_node (JObj []))) ''options'' = Inr JUndefined \<and>
   execute std_lib chat_then_bare_chat_ctx =
     (Inr [[\<lparr>json = JObj [], binary = None, pairedItem = None,
             sendMessage = Some (JStr [])\<rparr>]],
      [PutExecutionToWait WAIT_INDEFINITELY])"
  by (simp add: chat_then_bare_chat_ctx_def run_defs mode_defs fixture_defs node_type_defs)

subsection \<open>Empty input\<close>

text \<open>
  C10. Modes firstIncomingItem and binary read the first input item without testing
  that there is one: on an empty input, once the parent check has passed, the try block
  throws the TypeError of reading a property of undefined (json, respectively binary),
  not a NodeOperationError, and no host call has been made. (When the response headers
  option has no entries, the header loop has thrown its own TypeError before that.)
\<close>

theorem first_item_modes_need_an_item:
  assumes "inputData c = []"
    and "webhook_check c = None"
    and "respondWith c = ''firstIncomingItem'' \<or> respondWith c = ''binary''"
  shows "execute_try l c =
           (Inl (if entries_present c
                 then cannot_read ''undefined''
                        (if respondWith c = ''firstIncomingItem'' then ''json'' else ''binary'')
                 else not_iterable), [])
         \<and> (\<exists>m. (if entries_present c
                  then cannot_read ''undefined''
                         (if respondWith c = ''firstIncomingItem'' then ''json'' else ''binary'')
                  else not_iterable) = TypeError m)
         \<and> (\<not> continueOnFail c \<longrightarrow>
               execute l c =
                 (Inl (if entries_present c
                       then cannot_read ''undefined''
                              (if respondWith c = ''firstIncomingItem'' then ''json''
                               else ''binary'')
                       else not_iterable), []))"
proof -
  let ?e = "if entries_present c
            then cannot_read ''undefined''
                   (if respondWith c = ''firstIncomingItem'' then ''json'' else ''binary'')
            else not_iterable"
  have b: "build l c = (Inl ?e, [])"
  proof (cases "entries_present c")
    case True
    then show ?thesis
      using assms(1,3) build_headers_present[OF True]
      by (auto simp: build_def dispatch_def respond_firstIncomingItem_def respond_binary_def
            Let_def)
  next
    case False
    then show ?thesis
      using build_headers_absent[OF False] by (simp add: build_def)
  qed
  have t: "execute_try l c = (Inl ?e, [])"
    using b assms(2) by (simp add: execute_try_def respond_def)
  have m: "\<exists>m. ?e = TypeError m" by (simp add: cannot_read_def not_iterable_def)
  have x: "\<not> continueOnFail c \<longrightarrow> execute l c = (Inl ?e, [])"
    using t by (simp add: execute_def Let_def)
  from t m x show ?thesis by blast
qed

theorem first_item_modes_need_an_item_witness:
  "execute std_lib (no_items_ctx ''firstIncomingItem'') =
     (Inl (cannot_read ''undefined'' ''json''), [])
   \<and> execute std_lib (no_items_ctx ''binary'') =
     (Inl (cannot_read ''undefined'' ''binary''), [])
   \<and> execute std_lib no_entries_ctx = (Inl not_iterable, [])"
proof -
  have w: "\<And>m. webhook_check (no_items_ctx m) = None"
    by (simp add: no_items_ctx_def mk_ctx_def webhook_check_def webhook_node_def node_type_defs)
  have i: "\<And>m. inputData (no_items_ctx m) = []" by (simp add: no_items_ctx_def mk_ctx_def)
  have r: "\<And>m. respondWith (no_items_ctx m) = m" by (simp add: no_items_ctx_def mk_ctx_def)
  have n: "\<And>m. \<not> continueOnFail (no_items_ctx m)" by (simp add: no_items_ctx_def mk_ctx_def)
  have p: "\<And>m. entries_present (no_items_ctx m)"
    by (simp add: no_items_ctx_def mk_ctx_def entries_present_def no_opts_def)
  have 1: "execute std_lib (no_items_ctx ''firstIncomingItem'') =
     (Inl (cannot_read ''undefined'' ''json''), [])"
    using first_item_modes_need_an_item[OF i w, of "''firstIncomingItem''" std_lib] r n p
    by simp
  have 2: "execute std_lib (no_items_ctx ''binary'') =
     (Inl (cannot_read ''undefined'' ''binary''), [])"
    using first_item_modes_need_an_item[OF i w, of "''binary''" std_lib] r n p
    by simp
  have w3: "webhook_check no_entries_ctx = None"
    and i3: "inputData no_entries_ctx = []"
    and r3: "respondWith no_entries_ctx = ''firstIncomingItem'' \<or> respondWith no_entries_ctx = ''binary''"
    and n3: "\<not> continueOnFail no_entries_ctx"
    and p3: "\<not> entries_present no_entries_ctx"
    by (simp_all add: no_entries_ctx_def mk_ctx_def webhook_check_def webhook_node_def
          node_type_defs entries_present_def no_opts_def)
  have 3: "execute std_lib no_entries_ctx = (Inl not_iterable, [])"
    using first_item_modes_need_an_item[OF i3 w3 r3, of std_lib] n3 p3 by simp
  from 1 2 3 show ?thesis by blast
qed

end
